theory Spec2Isabelle
  imports Complex_Main "HOL-Library.Word" "HOL-Library.Sublist"
begin

section \<open>The chat client's message and attachment pipeline (src/main.py)\<close>

text \<open>
  The development embeds the three functions of \<^verbatim>\<open>src/main.py\<close> that carry the
  program's logic: \<^verbatim>\<open>convert_image_to_base64\<close> (the image normaliser),
  \<^verbatim>\<open>prepare_messages\<close> (the message assembler) and \<^verbatim>\<open>stream_response\<close>
  (the completion client). The libraries they call (Pillow, pandas, the endpoint's
  client) are parameters of the model; Streamlit's \<^verbatim>\<open>st.warning\<close> and
  \<^verbatim>\<open>st.error\<close> calls are returned as a list of events.
\<close>

subsection \<open>Bytes and base64\<close>

type_synonym byte = "8 word"

text \<open>
  \<^verbatim>\<open>base64.b64encode(b).decode('utf-8')\<close> with the standard alphabet (RFC 4648):
  three bytes become four characters, a last group of one or two bytes is padded
  with \<^verbatim>\<open>=\<close>.
\<close>

definition b64_alphabet :: string where
  "b64_alphabet = ''ABCDEFGHIJKLMNOPQRSTUVWXYZabcdefghijklmnopqrstuvwxyz0123456789+/''"

definition b64_char :: "nat \<Rightarrow> char" where
  "b64_char n = b64_alphabet ! (n mod 64)"

fun b64encode :: "byte list \<Rightarrow> string" where
  "b64encode [] = []"
| "b64encode [a] =
     [b64_char (unat a div 4), b64_char (unat a mod 4 * 16), CHR ''='', CHR ''='']"
| "b64encode [a, b] =
     [b64_char (unat a div 4), b64_char (unat a mod 4 * 16 + unat b div 16),
      b64_char (unat b mod 16 * 4), CHR ''='']"
| "b64encode (a # b # c # rest) =
     [b64_char (unat a div 4), b64_char (unat a mod 4 * 16 + unat b div 16),
      b64_char (unat b mod 16 * 4 + unat c div 64), b64_char (unat c mod 64)]
     @ b64encode rest"

subsection \<open>Images, the uploaded file and the external libraries\<close>

text \<open>
  A Pillow image as the code reads it: its \<^verbatim>\<open>format\<close>, \<^verbatim>\<open>mode\<close>,
  \<^verbatim>\<open>width\<close> and \<^verbatim>\<open>height\<close> attributes, and the pixel data, whose
  representation \<open>'p\<close> is left open.
\<close>

record 'p image =
  format :: string
  mode :: string
  width :: nat
  height :: nat
  pixels :: 'p

text \<open>Streamlit's \<^verbatim>\<open>UploadedFile\<close>: the MIME type (\<^verbatim>\<open>.type\<close>) and the bytes.\<close>

record uploaded_file =
  ftype :: string
  fdata :: "byte list"

text \<open>The \<^verbatim>\<open>format=\<close> argument of \<^verbatim>\<open>image.save\<close>.\<close>

datatype save_format = SaveJPEG | SavePNG

text \<open>
  The library calls of the pipeline. A call that raises returns \<open>None\<close>:
  \<^item> \<open>pil_open\<close>: \<^verbatim>\<open>Image.open(file)\<close>;
  \<^item> \<open>pil_save\<close>: the bytes \<^verbatim>\<open>image.save(img_bytes, format=.., quality=.., optimize=True)\<close>
    writes into the fresh buffer, from the image, the format and the quality
    (\<open>None\<close> for \<^verbatim>\<open>quality=None\<close>);
  \<^item> \<open>pil_convert_rgb\<close>: the pixel data of \<^verbatim>\<open>image.convert("RGB")\<close>;
  \<^item> \<open>pil_resize\<close>: the pixel data of
    \<^verbatim>\<open>image.resize((new_width, new_height), Image.Resampling.LANCZOS)\<close>;
  \<^item> \<open>read_excel\<close>: \<^verbatim>\<open>pd.read_excel(uploaded_file).to_string(index=False)\<close>.
\<close>

record 'p libs =
  pil_open :: "byte list \<Rightarrow> 'p image option"
  pil_save :: "'p image \<Rightarrow> save_format \<Rightarrow> int option \<Rightarrow> byte list option"
  pil_convert_rgb :: "'p image \<Rightarrow> 'p"
  pil_resize :: "'p image \<Rightarrow> nat \<Rightarrow> nat \<Rightarrow> 'p"
  read_excel :: "byte list \<Rightarrow> string option"

text \<open>
  \<^verbatim>\<open>image.convert("RGB")\<close> returns an image of mode RGB and of the same size;
  \<^verbatim>\<open>image.resize((w, h), ..)\<close> returns an image of the requested size and of
  the same mode.
\<close>

definition image_convert_rgb :: "'p libs \<Rightarrow> 'p image \<Rightarrow> 'p image" where
  "image_convert_rgb env img = img\<lparr>mode := ''RGB'', pixels := pil_convert_rgb env img\<rparr>"

definition image_resize :: "'p libs \<Rightarrow> 'p image \<Rightarrow> nat \<Rightarrow> nat \<Rightarrow> 'p image" where
  "image_resize env img w h = img\<lparr>width := w, height := h, pixels := pil_resize env img w h\<rparr>"

text \<open>What the user is shown: the calls of \<^verbatim>\<open>st.warning\<close> and \<^verbatim>\<open>st.error\<close>.\<close>

datatype ui_event =
    WarnCannotCompress  \<comment> \<open>line 92, \<^verbatim>\<open>st.warning\<close>: the image could not be compressed enough\<close>
  | ErrImage            \<comment> \<open>line 100, \<^verbatim>\<open>st.error\<close>: an exception while processing the image\<close>
  | ErrExcel            \<comment> \<open>line 152, \<^verbatim>\<open>st.error\<close>: an exception while reading the spreadsheet\<close>
  | ErrResponse         \<comment> \<open>line 53, \<^verbatim>\<open>st.error\<close>: an exception while getting the reply\<close>

subsection \<open>The image normaliser: \<^verbatim>\<open>convert_image_to_base64\<close>\<close>

text \<open>The two ways the loop ends without an encoding: line 93, and the handler of line 99.\<close>

datatype conv_error = CannotCompress | ImageError

text \<open>The two ways the loop goes round again: line 86, and lines 88 to 95.\<close>

datatype step_kind = QualityStep | ShrinkStep

text \<open>
  Line 82, \<^verbatim>\<open>(img_bytes.tell() * 4 / 3) <= max_size_bytes\<close>. Python divides the
  integers into a double, correctly rounded, and compares the double with the integer
  exactly; the model compares the exact quotient. The two agree for every byte count
  when the budget is below \<open>2 ^ 52\<close> (a quotient above the budget is above it by a
  third at least, and doubles below \<open>2 ^ 52\<close> are at most a half apart).
\<close>

definition size_estimate :: "nat \<Rightarrow> real" where
  "size_estimate n = real n * 4 / 3"

definition fits_budget :: "nat \<Rightarrow> int \<Rightarrow> bool" where
  "fits_budget n max_size_bytes \<longleftrightarrow> size_estimate n \<le> real_of_int max_size_bytes"

text \<open>
  Lines 88 and 89, \<^verbatim>\<open>int(image.width * resize_factor)\<close> with the double
  \<^verbatim>\<open>0.9\<close>: the double nearest to 0.9 exceeds it by less than \<open>2 ^ - 54\<close>, so
  for a dimension below \<open>2 ^ 49\<close> the truncated product is the integer quotient of
  \<open>9 * w\<close> by 10.
\<close>

definition resize_dim :: "nat \<Rightarrow> nat" where
  "resize_dim w = w * 9 div 10"

text \<open>
  Lines 73 to 80: the image that is saved (converted to RGB first when the source is
  neither JPEG nor PNG; the conversion rebinds \<^verbatim>\<open>image\<close>) and the bytes written,
  \<open>None\<close> when saving raises.
\<close>

definition save_image :: "'p libs \<Rightarrow> string \<Rightarrow> int \<Rightarrow> 'p image \<Rightarrow> 'p image \<times> byte list option" where
  "save_image env img_format quality img =
     (if img_format \<in> set [''JPEG'', ''JPG'']
      then (img, pil_save env img SaveJPEG (Some quality))
      else
        (let img' = (if img_format \<noteq> ''PNG'' then image_convert_rgb env img else img)
         in (img',
             pil_save env img'
               (if img_format = ''PNG'' then SavePNG else SaveJPEG)
               (if img_format \<noteq> ''PNG'' then Some quality else None))))"

text \<open>
  One iteration of the \<^verbatim>\<open>while True\<close> loop, lines 71 to 95: it breaks with the
  bytes, returns without an encoding, or goes round with a new quality or a new image.
\<close>

datatype 'p iteration =
    Break "byte list"
  | Fail conv_error
  | Continue int "'p image" step_kind

definition loop_body :: "'p libs \<Rightarrow> string \<Rightarrow> int \<Rightarrow> int \<Rightarrow> 'p image \<Rightarrow> 'p iteration" where
  "loop_body env img_format max_size_bytes quality img =
     (case save_image env img_format quality img of
        (img', None) \<Rightarrow> Fail ImageError
      | (img', Some img_bytes) \<Rightarrow>
          if fits_budget (length img_bytes) max_size_bytes then Break img_bytes
          else if img_format \<in> set [''JPEG'', ''JPG''] \<and> quality > 20
          then Continue (quality - 10) img' QualityStep
          else
            (let new_width = resize_dim (width img');
                 new_height = resize_dim (height img')
             in if new_width < 200 \<or> new_height < 200 then Fail CannotCompress
                else Continue quality (image_resize env img' new_width new_height) ShrinkStep))"

text \<open>
  The loop. Beside the outcome it returns the kinds of the steps it took, in order;
  the log is not in the source and nothing reads it but the theorems.
\<close>

function compress_loop ::
  "'p libs \<Rightarrow> string \<Rightarrow> int \<Rightarrow> int \<Rightarrow> 'p image \<Rightarrow> step_kind list \<times> (conv_error + byte list)" where
  "compress_loop env img_format max_size_bytes quality img =
     (case loop_body env img_format max_size_bytes quality img of
        Break img_bytes \<Rightarrow> ([], Inr img_bytes)
      | Fail e \<Rightarrow> ([], Inl e)
      | Continue quality' img' k \<Rightarrow>
          (case compress_loop env img_format max_size_bytes quality' img' of
             (ks, r) \<Rightarrow> (k # ks, r)))"
  by pat_completeness auto
termination
proof (relation "measure (\<lambda>(env, img_format, max_size_bytes, quality, img). nat quality + width img)")
  show "wf (measure (\<lambda>(env, img_format, max_size_bytes, quality, img). nat quality + width img))"
    by simp
next
  fix env :: "'p libs" and img_format max_size_bytes quality img quality' img' k
  assume "loop_body env img_format max_size_bytes quality img = Continue quality' img' k"
  then have "nat quality' + width img' < nat quality + width img"
    by (auto simp: loop_body_def save_image_def image_resize_def image_convert_rgb_def
          resize_dim_def Let_def split: if_splits option.splits)
  then show "((env, img_format, max_size_bytes, quality', img'),
              (env, img_format, max_size_bytes, quality, img))
        \<in> measure (\<lambda>(env, img_format, max_size_bytes, quality, img). nat quality + width img)"
    by simp
qed

text \<open>
  Lines 57 to 101. The function returns the base64 text or \<^verbatim>\<open>None\<close>; the second
  component is what it shows the user. Quality starts at 90.
\<close>

definition convert_image_to_base64 ::
  "'p libs \<Rightarrow> uploaded_file \<Rightarrow> int \<Rightarrow> string option \<times> ui_event list" where
  "convert_image_to_base64 env file max_size_mb =
     (let max_size_bytes = max_size_mb * 1024 * 1024 in
      case pil_open env (fdata file) of
        None \<Rightarrow> (None, [ErrImage])
      | Some img \<Rightarrow>
          (case snd (compress_loop env (format img) max_size_bytes 90 img) of
             Inr img_bytes \<Rightarrow> (Some (b64encode img_bytes), [])
           | Inl CannotCompress \<Rightarrow> (None, [WarnCannotCompress])
           | Inl ImageError \<Rightarrow> (None, [ErrImage])))"

subsection \<open>Messages and the heap\<close>

text \<open>
  The request's content blocks, as the dictionaries of lines 124 to 134 and 144 to 150:
  \<^verbatim>\<open>{"type": "image", "source": {"type": "base64", "media_type": .., "data": ..}}\<close>
  and \<^verbatim>\<open>{"type": "text", "text": ..}\<close>. The \<^verbatim>\<open>text\<close> of a text block is whatever
  the message's content was, a string or a list of blocks.
\<close>

record image_source =
  source_type :: string
  media_type :: string
  data :: string

datatype msg_content = Text string | Blocks "block list"
  and block = TextBlock msg_content | ImageBlock image_source

text \<open>A message: the dictionary \<^verbatim>\<open>{"role": .., "content": ..}\<close>.\<close>

record message =
  role :: string
  content :: msg_content

text \<open>
  Messages are mutable dictionaries, and \<^verbatim>\<open>prepare_messages\<close> both shares them
  (line 113) and writes to them (lines 124 and 144). The heap holds the dictionaries;
  an address is an index into it, a new dictionary is appended, and a list of
  messages is a list of addresses. The lists themselves are values: the function
  only reads \<^verbatim>\<open>messages\<close> and builds \<^verbatim>\<open>prepared_messages\<close> anew.
\<close>

type_synonym addr = nat
type_synonym heap = "message list"

definition deref :: "heap \<Rightarrow> addr list \<Rightarrow> message list" where
  "deref h as = map (\<lambda>a. h ! a) as"

text \<open>Every address of the list is allocated: Python has no dangling reference.\<close>

definition allocated :: "heap \<Rightarrow> addr list \<Rightarrow> bool" where
  "allocated h as = list_all (\<lambda>a. a < length h) as"

subsection \<open>The message assembler: \<^verbatim>\<open>prepare_messages\<close>\<close>

text \<open>
  Lines 108 to 113: a user message is copied into a new dictionary, any other message
  is appended as it is (the same dictionary).
\<close>

fun copy_messages :: "heap \<Rightarrow> addr list \<Rightarrow> addr list \<Rightarrow> heap \<times> addr list" where
  "copy_messages h [] prepared_messages = (h, prepared_messages)"
| "copy_messages h (msg # msgs) prepared_messages =
     (if role (h ! msg) = ''user''
      then copy_messages (h @ [\<lparr>role = role (h ! msg), content = content (h ! msg)\<rparr>]) msgs
             (prepared_messages @ [length h])
      else copy_messages h msgs (prepared_messages @ [msg]))"

text \<open>
  Lines 121 to 134 and 141 to 150: the last prepared message, when its role is user,
  gets the two-block content; the write is to the dictionary \<^verbatim>\<open>last_message\<close>
  refers to. The list is not empty where this is called (line 115).
\<close>

definition attach_block :: "heap \<Rightarrow> addr list \<Rightarrow> block \<Rightarrow> heap" where
  "attach_block h prepared_messages blk =
     (let last_message = last prepared_messages in
      if role (h ! last_message) = ''user''
      then
        (let last_content = content (h ! last_message)
         in h[last_message := (h ! last_message)\<lparr>content := Blocks [TextBlock last_content, blk]\<rparr>])
      else h)"

definition fenced :: "string \<Rightarrow> string" where
  "fenced df_string = ''```'' @ [CHR 0x0A] @ df_string @ [CHR 0x0A] @ ''```''"

text \<open>
  Lines 104 to 154. The image is encoded with the default budget, \<^verbatim>\<open>max_size_mb=5\<close>.
  \<^verbatim>\<open>if image_data:\<close> is false for \<^verbatim>\<open>None\<close> and for the empty string.
  The result is the heap after the call, the returned list and what the user is shown.
\<close>

definition prepare_messages ::
  "'p libs \<Rightarrow> heap \<Rightarrow> addr list \<Rightarrow> uploaded_file option \<Rightarrow> heap \<times> addr list \<times> ui_event list" where
  "prepare_messages env h messages uploaded_file =
     (case copy_messages h messages [] of
        (h1, prepared_messages) \<Rightarrow>
          (case uploaded_file of
             None \<Rightarrow> (h1, prepared_messages, [])
           | Some file \<Rightarrow>
               if prepared_messages = [] then (h1, prepared_messages, [])
               else
                 (let mime_type = ftype file in
                  if prefix ''image/'' mime_type
                  then
                    (case convert_image_to_base64 env file 5 of
                       (None, shown) \<Rightarrow> (h1, prepared_messages, shown)
                     | (Some image_data, shown) \<Rightarrow>
                         if image_data = [] then (h1, prepared_messages, shown)
                         else
                           (attach_block h1 prepared_messages
                              (ImageBlock \<lparr>source_type = ''base64'', media_type = mime_type,
                                           data = image_data\<rparr>),
                            prepared_messages, shown))
                  else if mime_type \<in> set [''application/vnd.ms-excel'',
                            ''application/vnd.openxmlformats-officedocument.spreadsheetml.sheet'']
                  then
                    (case read_excel env (fdata file) of
                       None \<Rightarrow> (h1, prepared_messages, [ErrExcel])
                     | Some df_string \<Rightarrow>
                         (attach_block h1 prepared_messages (TextBlock (Text (fenced df_string))),
                          prepared_messages, []))
                  else (h1, prepared_messages, []))))"

subsection \<open>The completion client: \<^verbatim>\<open>stream_response\<close>\<close>

text \<open>
  A content block of the response: one with a \<^verbatim>\<open>text\<close> attribute, or one without
  (reading \<^verbatim>\<open>.text\<close> raises). The client is the call
  \<^verbatim>\<open>client.messages.create(model=.., max_tokens=.., messages=..)\<close>: it returns the
  response's \<^verbatim>\<open>content\<close> list, or raises (\<open>None\<close>).
\<close>

datatype resp_block = RespText string | RespOther

record request =
  model :: string
  max_tokens :: int
  req_messages :: "message list"

type_synonym client = "request \<Rightarrow> resp_block list option"

definition CLAUDE_MODEL :: string where
  "CLAUDE_MODEL = ''claude-3-sonnet-20240229''"

text \<open>Lines 40 to 54.\<close>

definition stream_response :: "client \<Rightarrow> message list \<Rightarrow> string option \<times> ui_event list" where
  "stream_response client messages =
     (case client \<lparr>model = CLAUDE_MODEL, max_tokens = 4096, req_messages = messages\<rparr> of
        None \<Rightarrow> (None, [ErrResponse])
      | Some response_content \<Rightarrow>
          (case response_content of
             [] \<Rightarrow> (None, [])
           | RespText t # _ \<Rightarrow> (Some t, [])
           | RespOther # _ \<Rightarrow> (None, [ErrResponse])))"

subsection \<open>Notions the theorems are stated with\<close>

text \<open>
  The states the loop goes through: \<open>loop_reaches env img_format max_size_bytes s t\<close>
  holds when the loop started in the state \<open>s\<close> (a quality and an image) begins
  an iteration in the state \<open>t\<close>.
\<close>

inductive loop_reaches ::
  "'p libs \<Rightarrow> string \<Rightarrow> int \<Rightarrow> int \<times> 'p image \<Rightarrow> int \<times> 'p image \<Rightarrow> bool"
  for env :: "'p libs" and img_format :: string and max_size_bytes :: int where
    here: "loop_reaches env img_format max_size_bytes s s"
  | round: "loop_reaches env img_format max_size_bytes s (quality, img) \<Longrightarrow>
        loop_body env img_format max_size_bytes quality img = Continue quality' img' k \<Longrightarrow>
        loop_reaches env img_format max_size_bytes s (quality', img')"


text \<open>
  \<^verbatim>\<open>prepare_messages\<close> read on values, without the heap: what the returned list
  holds, as a function of what the history held. \<open>prepare_messages_value\<close> below
  proves that the heap version computes it.
\<close>

definition attach_value :: "message list \<Rightarrow> block \<Rightarrow> message list" where
  "attach_value ms blk =
     (if role (last ms) = ''user''
      then butlast ms @ [(last ms)\<lparr>content := Blocks [TextBlock (content (last ms)), blk]\<rparr>]
      else ms)"

definition prepare_value ::
  "'p libs \<Rightarrow> message list \<Rightarrow> uploaded_file option \<Rightarrow> message list \<times> ui_event list" where
  "prepare_value env ms uploaded_file =
     (case uploaded_file of
        None \<Rightarrow> (ms, [])
      | Some file \<Rightarrow>
          if ms = [] then (ms, [])
          else if prefix ''image/'' (ftype file)
          then
            (case convert_image_to_base64 env file 5 of
               (None, shown) \<Rightarrow> (ms, shown)
             | (Some image_data, shown) \<Rightarrow>
                 if image_data = [] then (ms, shown)
                 else
                   (attach_value ms
                      (ImageBlock \<lparr>source_type = ''base64'', media_type = ftype file,
                                   data = image_data\<rparr>),
                    shown))
          else if ftype file \<in> set [''application/vnd.ms-excel'',
                    ''application/vnd.openxmlformats-officedocument.spreadsheetml.sheet'']
          then
            (case read_excel env (fdata file) of
               None \<Rightarrow> (ms, [ErrExcel])
             | Some df_string \<Rightarrow> (attach_value ms (TextBlock (Text (fenced df_string))), []))
          else (ms, []))"

subsection \<open>Libraries and inputs for the concrete cases\<close>

text \<open>
  A small stand-in for the libraries, to run the functions on concrete inputs. A file
  is five bytes: a format tag (0 for JPEG, 1 for PNG, anything else for WEBP) and the
  width and the height, two bytes each; every image opens in mode RGBA. Saving writes
  a first byte that tells the format (\<open>0xFF\<close> for JPEG, \<open>0x89\<close> for PNG, as the
  formats' own first bytes) and then zeros: \<open>width * height * quality div 100\<close> of
  them for JPEG, \<open>width * height * 3\<close> for PNG.
\<close>

definition demo_format :: "byte \<Rightarrow> string" where
  "demo_format t = (if t = 0 then ''JPEG'' else if t = 1 then ''PNG'' else ''WEBP'')"

definition demo_open :: "byte list \<Rightarrow> unit image option" where
  "demo_open bs =
     (case bs of
        [t, w1, w0, h1, h0] \<Rightarrow>
          Some \<lparr>format = demo_format t, mode = ''RGBA'',
                width = unat w1 * 256 + unat w0, height = unat h1 * 256 + unat h0,
                pixels = ()\<rparr>
      | _ \<Rightarrow> None)"

definition demo_save :: "unit image \<Rightarrow> save_format \<Rightarrow> int option \<Rightarrow> byte list option" where
  "demo_save img fmt q =
     (case fmt of
        SaveJPEG \<Rightarrow>
          Some (0xFF # replicate (width img * height img * nat (case q of None \<Rightarrow> 75 | Some q' \<Rightarrow> q') div 100) 0)
      | SavePNG \<Rightarrow> Some (0x89 # replicate (width img * height img * 3) 0))"

definition demo_libs :: "unit libs" where
  "demo_libs =
     \<lparr>pil_open = demo_open, pil_save = demo_save,
      pil_convert_rgb = (\<lambda>img. ()), pil_resize = (\<lambda>img w h. ()),
      read_excel = (\<lambda>bs. if bs = [] then None else Some ''a 1'')\<rparr>"

definition demo_image :: "string \<Rightarrow> nat \<Rightarrow> nat \<Rightarrow> unit image" where
  "demo_image f w h = \<lparr>format = f, mode = ''RGBA'', width = w, height = h, pixels = ()\<rparr>"

definition demo_heap :: heap where
  "demo_heap =
     [\<lparr>role = ''user'', content = Text ''hi''\<rparr>,
      \<lparr>role = ''assistant'', content = Text ''hello''\<rparr>,
      \<lparr>role = ''user'', content = Text ''describe''\<rparr>]"

definition demo_webp :: uploaded_file where
  "demo_webp = \<lparr>ftype = ''image/webp'', fdata = [2, 0, 2, 0, 2]\<rparr>"

definition demo_jpeg :: uploaded_file where
  "demo_jpeg = \<lparr>ftype = ''image/jpeg'', fdata = [0, 39, 16, 11, 184]\<rparr>"

definition demo_png :: uploaded_file where
  "demo_png = \<lparr>ftype = ''image/png'', fdata = [1, 39, 16, 0, 240]\<rparr>"

definition demo_client :: client where
  "demo_client request =
     (if req_messages request = [] then Some [] else Some [RespText ''Hello!'', RespText ''more''])"

definition demo_image_block :: block where
  "demo_image_block =
     ImageBlock \<lparr>source_type = ''base64'', media_type = ''image/webp'', data = ''/wAAAA==''\<rparr>"





section \<open>Properties\<close>

declare compress_loop.simps [simp del]

subsection \<open>The loop of the normaliser\<close>

lemma save_image_dims:
  "width (fst (save_image env img_format quality img)) = width img"
  "height (fst (save_image env img_format quality img)) = height img"
  by (simp_all add: save_image_def image_convert_rgb_def Let_def)


lemma loop_body_Break:
  "loop_body env img_format max_size_bytes quality img = Break b \<Longrightarrow> fits_budget (length b) max_size_bytes"
  by (auto simp: loop_body_def Let_def split: prod.splits option.splits if_splits)


lemma compress_loop_Break:
  "loop_body env img_format max_size_bytes quality img = Break b \<Longrightarrow>
     compress_loop env img_format max_size_bytes quality img = ([], Inr b)"
  by (simp add: compress_loop.simps [of env img_format max_size_bytes quality img])

lemma compress_loop_Fail:
  "loop_body env img_format max_size_bytes quality img = Fail e \<Longrightarrow>
     compress_loop env img_format max_size_bytes quality img = ([], Inl e)"
  by (simp add: compress_loop.simps [of env img_format max_size_bytes quality img])

lemma compress_loop_Continue:
  "loop_body env img_format max_size_bytes quality img = Continue quality' img' k \<Longrightarrow>
     compress_loop env img_format max_size_bytes quality img =
       (k # fst (compress_loop env img_format max_size_bytes quality' img'),
        snd (compress_loop env img_format max_size_bytes quality' img'))"
  by (simp add: compress_loop.simps [of env img_format max_size_bytes quality img] case_prod_beta)

lemma compress_loop_fits:
  "snd (compress_loop env img_format max_size_bytes quality img) = Inr b
    \<Longrightarrow> fits_budget (length b) max_size_bytes"
proof (induction env img_format max_size_bytes quality img rule: compress_loop.induct)
  case (1 env img_format max_size_bytes quality img)
  show ?case
  proof (cases "loop_body env img_format max_size_bytes quality img")
    case (Break x)
    with "1.prems" show ?thesis
      by (simp add: compress_loop_Break loop_body_Break)
  next
    case (Fail e)
    with "1.prems" show ?thesis
      by (simp add: compress_loop_Fail)
  next
    case (Continue q' img' k)
    with "1.prems" have "snd (compress_loop env img_format max_size_bytes q' img') = Inr b"
      by (simp add: compress_loop_Continue)
    with "1.IH" [OF Continue] show ?thesis by simp
  qed
qed




lemma loop_reaches_first:
  assumes "loop_reaches env img_format max_size_bytes s1 t"
    and "s1 = (quality', img')"
    and "loop_body env img_format max_size_bytes quality img = Continue quality' img' k"
  shows "loop_reaches env img_format max_size_bytes (quality, img) t"
  using assms
proof (induction rule: loop_reaches.induct)
  case (here s)
  then show ?case
    using loop_reaches.round [OF loop_reaches.here] by blast
next
  case (round s q i q2 i2 k2)
  then show ?case using loop_reaches.round by blast
qed

lemma loop_reaches_result:
  assumes "loop_reaches env img_format max_size_bytes s t"
  shows "snd (compress_loop env img_format max_size_bytes (fst s) (snd s))
       = snd (compress_loop env img_format max_size_bytes (fst t) (snd t))"
  using assms
  by (induction rule: loop_reaches.induct) (simp_all add: compress_loop_Continue)

lemma compress_loop_error_reached:
  "snd (compress_loop env img_format max_size_bytes quality img) = Inl e \<Longrightarrow>
     \<exists>quality' img'. loop_reaches env img_format max_size_bytes (quality, img) (quality', img')
        \<and> loop_body env img_format max_size_bytes quality' img' = Fail e"
proof (induction env img_format max_size_bytes quality img rule: compress_loop.induct)
  case (1 env img_format max_size_bytes quality img)
  show ?case
  proof (cases "loop_body env img_format max_size_bytes quality img")
    case (Break b)
    with "1.prems" show ?thesis by (simp add: compress_loop_Break)
  next
    case (Fail e')
    with "1.prems" have "e' = e" by (simp add: compress_loop_Fail)
    with Fail show ?thesis using loop_reaches.here by blast
  next
    case (Continue q1 i1 k)
    with "1.prems" have "snd (compress_loop env img_format max_size_bytes q1 i1) = Inl e"
      by (simp add: compress_loop_Continue)
    from "1.IH" [OF Continue this]
    obtain q2 i2 where "loop_reaches env img_format max_size_bytes (q1, i1) (q2, i2)"
      "loop_body env img_format max_size_bytes q2 i2 = Fail e" by blast
    then show ?thesis
      using loop_reaches_first [OF _ refl Continue] by blast
  qed
qed

lemma loop_body_CannotCompress:
  "loop_body env img_format max_size_bytes quality img = Fail CannotCompress \<longleftrightarrow>
     (\<exists>img_bytes. snd (save_image env img_format quality img) = Some img_bytes
        \<and> \<not> fits_budget (length img_bytes) max_size_bytes
        \<and> \<not> (img_format \<in> set [''JPEG'', ''JPG''] \<and> 20 < quality)
        \<and> (resize_dim (width img) < 200 \<or> resize_dim (height img) < 200))"
proof -
  obtain im sv where s: "save_image env img_format quality img = (im, sv)"
    by (cases "save_image env img_format quality img")
  have d: "width im = width img" "height im = height img"
    using save_image_dims [of env img_format quality img] s by simp_all
  show ?thesis
    using s d by (auto simp: loop_body_def Let_def split: option.splits if_splits)
qed

lemma compress_loop_CannotCompress:
  "snd (compress_loop env img_format max_size_bytes quality img) = Inl CannotCompress \<longleftrightarrow>
     (\<exists>quality' img'. loop_reaches env img_format max_size_bytes (quality, img) (quality', img')
        \<and> loop_body env img_format max_size_bytes quality' img' = Fail CannotCompress)"
proof
  assume "snd (compress_loop env img_format max_size_bytes quality img) = Inl CannotCompress"
  then show "\<exists>quality' img'. loop_reaches env img_format max_size_bytes (quality, img) (quality', img')
        \<and> loop_body env img_format max_size_bytes quality' img' = Fail CannotCompress"
    by (rule compress_loop_error_reached)
next
  assume "\<exists>quality' img'. loop_reaches env img_format max_size_bytes (quality, img) (quality', img')
        \<and> loop_body env img_format max_size_bytes quality' img' = Fail CannotCompress"
  then obtain q2 i2 where r: "loop_reaches env img_format max_size_bytes (quality, img) (q2, i2)"
    and f: "loop_body env img_format max_size_bytes q2 i2 = Fail CannotCompress" by blast
  from loop_reaches_result [OF r] f
  show "snd (compress_loop env img_format max_size_bytes quality img) = Inl CannotCompress"
    by (simp add: compress_loop_Fail)
qed

lemma convert_CannotCompress:
  "convert_image_to_base64 env file max_size_mb = (None, [WarnCannotCompress]) \<longleftrightarrow>
     (\<exists>img. pil_open env (fdata file) = Some img
        \<and> snd (compress_loop env (format img) (max_size_mb * 1024 * 1024) 90 img) = Inl CannotCompress)"
  by (auto simp: convert_image_to_base64_def Let_def split: option.splits sum.splits conv_error.splits)

lemma convert_Some:
  "convert_image_to_base64 env file max_size_mb = (Some image_data, shown) \<longleftrightarrow>
     (\<exists>img img_bytes. pil_open env (fdata file) = Some img
        \<and> snd (compress_loop env (format img) (max_size_mb * 1024 * 1024) 90 img) = Inr img_bytes
        \<and> image_data = b64encode img_bytes \<and> shown = [])"
  by (auto simp: convert_image_to_base64_def Let_def split: option.splits sum.splits conv_error.splits)







subsection \<open>The copy loop and the write to the last message\<close>

lemma allocated_Cons [simp]: "allocated h (a # as) \<longleftrightarrow> a < length h \<and> allocated h as"
  by (simp add: allocated_def)

lemma allocated_Nil [simp]: "allocated h []"
  by (simp add: allocated_def)

lemma allocated_iff: "allocated h as \<longleftrightarrow> (\<forall>a\<in>set as. a < length h)"
  by (simp add: allocated_def list_all_iff)

lemma allocated_append_heap: "allocated h as \<Longrightarrow> allocated (h @ ext) as"
  by (auto simp: allocated_iff)

lemma deref_append_heap: "allocated h as \<Longrightarrow> deref (h @ ext) as = deref h as"
  by (auto simp: allocated_iff deref_def nth_append)

lemma copy_messages_inv:
  "allocated h msgs \<Longrightarrow>
     \<exists>ext new. copy_messages h msgs acc = (h @ ext, acc @ new)
       \<and> length new = length msgs
       \<and> deref (h @ ext) new = deref h msgs
       \<and> allocated (h @ ext) new
       \<and> (\<forall>a\<in>set new. role ((h @ ext) ! a) = ''user'' \<longrightarrow> length h \<le> a)
       \<and> distinct (filter (\<lambda>a. length h \<le> a) new)"
proof (induction msgs arbitrary: h acc)
  case Nil
  have "copy_messages h [] acc = (h @ [], acc @ [])" by simp
  moreover have "deref (h @ []) [] = deref h []" by simp
  ultimately show ?case
    by (metis allocated_Nil distinct.simps(1) empty_iff filter.simps(1) list.set(1) list.size(3))
next
  case (Cons msg msgs)
  then have msg: "msg < length h" and al: "allocated h msgs" by simp_all
  show ?case
  proof (cases "role (h ! msg) = ''user''")
    case True
    define c where "c = \<lparr>role = role (h ! msg), content = content (h ! msg)\<rparr>"
    have c: "c = h ! msg" by (simp add: c_def)
    have "allocated (h @ [c]) msgs" using al by (rule allocated_append_heap)
    from Cons.IH [OF this, of "acc @ [length h]"]
    obtain ext new where IH:
      "copy_messages (h @ [c]) msgs (acc @ [length h]) = ((h @ [c]) @ ext, (acc @ [length h]) @ new)"
      "length new = length msgs"
      "deref ((h @ [c]) @ ext) new = deref (h @ [c]) msgs"
      "allocated ((h @ [c]) @ ext) new"
      "\<forall>a\<in>set new. role (((h @ [c]) @ ext) ! a) = ''user'' \<longrightarrow> length (h @ [c]) \<le> a"
      "distinct (filter (\<lambda>a. length (h @ [c]) \<le> a) new)"
      by blast
    let ?ext = "c # ext" and ?new = "length h # new"
    have 1: "copy_messages h (msg # msgs) acc = (h @ ?ext, acc @ ?new)"
      using True IH(1) by (simp add: c_def)
    have 2: "length ?new = length (msg # msgs)" using IH(2) by simp
    have "deref (h @ [c]) msgs = deref h msgs" using al by (rule deref_append_heap)
    then have 3: "deref (h @ ?ext) ?new = deref h (msg # msgs)"
      using IH(3) c by (simp add: deref_def)
    have 4: "allocated (h @ ?ext) ?new" using IH(4) by simp
    have 5: "\<forall>a\<in>set ?new. role ((h @ ?ext) ! a) = ''user'' \<longrightarrow> length h \<le> a"
      using IH(5) by auto
    have fresh: "\<forall>a\<in>set new. length h \<le> a \<longrightarrow> length h < a"
    proof (intro ballI impI)
      fix a assume a: "a \<in> set new" "length h \<le> a"
      show "length h < a"
      proof (rule ccontr)
        assume "\<not> length h < a"
        with a have "a = length h" by simp
        then have "role (((h @ [c]) @ ext) ! a) = ''user''" using True c by simp
        with IH(5) a(1) have "length (h @ [c]) \<le> a" by blast
        with \<open>a = length h\<close> show False by simp
      qed
    qed
    then have "filter (\<lambda>a. length h \<le> a) new = filter (\<lambda>a. length (h @ [c]) \<le> a) new"
      by (intro filter_cong) auto
    then have 6: "distinct (filter (\<lambda>a. length h \<le> a) ?new)"
      using IH(6) fresh by auto
    from 1 2 3 4 5 6 show ?thesis by blast
  next
    case False
    from Cons.IH [OF al, of "acc @ [msg]"]
    obtain ext new where IH:
      "copy_messages h msgs (acc @ [msg]) = (h @ ext, (acc @ [msg]) @ new)"
      "length new = length msgs"
      "deref (h @ ext) new = deref h msgs"
      "allocated (h @ ext) new"
      "\<forall>a\<in>set new. role ((h @ ext) ! a) = ''user'' \<longrightarrow> length h \<le> a"
      "distinct (filter (\<lambda>a. length h \<le> a) new)"
      by blast
    let ?new = "msg # new"
    have 1: "copy_messages h (msg # msgs) acc = (h @ ext, acc @ ?new)"
      using False IH(1) by simp
    have 2: "length ?new = length (msg # msgs)" using IH(2) by simp
    have 3: "deref (h @ ext) ?new = deref h (msg # msgs)"
      using IH(3) msg by (simp add: deref_def nth_append)
    have 4: "allocated (h @ ext) ?new" using IH(4) msg by simp
    have 5: "\<forall>a\<in>set ?new. role ((h @ ext) ! a) = ''user'' \<longrightarrow> length h \<le> a"
      using IH(5) False msg by (auto simp: nth_append)
    have 6: "distinct (filter (\<lambda>a. length h \<le> a) ?new)"
      using IH(6) msg by simp
    from 1 2 3 4 5 6 show ?thesis by blast
  qed
qed

lemma last_notin_butlast:
  assumes "xs \<noteq> []" "P (last xs)" "distinct (filter P xs)"
  shows "last xs \<notin> set (butlast xs)"
proof -
  have "filter P xs = filter P (butlast xs @ [last xs])"
    using assms(1) by simp
  also have "\<dots> = filter P (butlast xs) @ [last xs]"
    using assms(2) by simp
  finally have "distinct (filter P (butlast xs) @ [last xs])"
    using assms(3) by simp
  then have "last xs \<notin> set (filter P (butlast xs))" by simp
  with assms(2) show ?thesis by simp
qed

lemma attach_block_length: "length (attach_block h prep blk) = length h"
  by (simp add: attach_block_def Let_def)

lemma attach_block_role: "role (attach_block h prep blk ! a) = role (h ! a)"
  by (cases "a < length h"; cases "a = last prep")
    (simp_all add: attach_block_def Let_def list_update_beyond)

lemma attach_block_frame:
  assumes "prep \<noteq> []" "\<forall>a\<in>set prep. role (h ! a) = ''user'' \<longrightarrow> n \<le> a" "a < n"
  shows "attach_block h prep blk ! a = h ! a"
proof (cases "role (h ! last prep) = ''user''")
  case True
  with assms(1,2) have "n \<le> last prep" by simp
  with assms(3) have "last prep \<noteq> a" by simp
  then show ?thesis by (simp add: attach_block_def Let_def)
next
  case False
  then show ?thesis by (simp add: attach_block_def)
qed

lemma attach_block_deref:
  assumes "prep \<noteq> []" "allocated h prep"
    "\<forall>a\<in>set prep. role (h ! a) = ''user'' \<longrightarrow> n \<le> a"
    "distinct (filter (\<lambda>a. n \<le> a) prep)"
  shows "deref (attach_block h prep blk) prep = attach_value (deref h prep) blk"
proof (cases "role (h ! last prep) = ''user''")
  case False
  with assms(1) show ?thesis
    by (simp add: attach_block_def attach_value_def deref_def last_map)
next
  case True
  let ?l = "last prep"
  let ?m = "(h ! ?l)\<lparr>content := Blocks [TextBlock (content (h ! ?l)), blk]\<rparr>"
  from True assms(1,3) have fresh: "n \<le> ?l" by simp
  with assms(1,4) have notin: "?l \<notin> set (butlast prep)"
    using last_notin_butlast [of prep "\<lambda>a. n \<le> a"] by simp
  from assms(1,2) have l: "?l < length h" by (simp add: allocated_iff)
  have prep: "prep = butlast prep @ [?l]" using assms(1) by simp
  have "deref (h[?l := ?m]) prep = deref (h[?l := ?m]) (butlast prep @ [?l])"
    using prep by simp
  also have "\<dots> = map (\<lambda>a. h[?l := ?m] ! a) (butlast prep) @ [h[?l := ?m] ! ?l]"
    by (simp add: deref_def)
  also have "map (\<lambda>a. h[?l := ?m] ! a) (butlast prep) = map (\<lambda>a. h ! a) (butlast prep)"
    using notin by (intro map_cong refl) (metis nth_list_update_neq)
  also have "h[?l := ?m] ! ?l = ?m" using l by simp
  finally have "deref (h[?l := ?m]) prep = map (\<lambda>a. h ! a) (butlast prep) @ [?m]" .
  moreover have "attach_block h prep blk = h[?l := ?m]"
    using True by (simp add: attach_block_def Let_def)
  moreover have "attach_value (deref h prep) blk = map (\<lambda>a. h ! a) (butlast prep) @ [?m]"
    using True assms(1) by (simp add: attach_value_def deref_def last_map map_butlast)
  ultimately show ?thesis by simp
qed

lemma prepare_messages_shape:
  assumes "prepare_messages env h msgs uploaded_file = (h', prep, shown)"
    and "copy_messages h msgs [] = (h1, new)"
    and "length new = length msgs" and "deref h1 new = deref h msgs"
  shows "prep = new \<and>
     ((h' = h1 \<and> prepare_value env (deref h msgs) uploaded_file = (deref h msgs, shown))
      \<or> (\<exists>blk. new \<noteq> [] \<and> h' = attach_block h1 new blk
            \<and> prepare_value env (deref h msgs) uploaded_file
                = (attach_value (deref h msgs) blk, shown)))"
proof (cases uploaded_file)
  case None
  with assms(1,2,4) show ?thesis
    by (simp add: prepare_messages_def prepare_value_def)
next
  case (Some f)
  have e: "new = [] \<longleftrightarrow> deref h msgs = []"
    using assms(3) by (auto simp: deref_def)
  show ?thesis
  proof (cases "new = []")
    case True
    with assms(1,2,4) Some e show ?thesis
      by (simp add: prepare_messages_def prepare_value_def)
  next
    case False
    note ne = False
    with e have ne': "deref h msgs \<noteq> []" by simp
    show ?thesis
    proof (cases "prefix ''image/'' (ftype f)")
      case True
      obtain r ev where c: "convert_image_to_base64 env f 5 = (r, ev)"
        by (cases "convert_image_to_base64 env f 5")
      show ?thesis
      proof (cases "r = None \<or> r = Some []")
        case True
        with assms(1,2,4) Some ne ne' c \<open>prefix ''image/'' (ftype f)\<close> show ?thesis
          by (auto simp: prepare_messages_def prepare_value_def Let_def)
      next
        case False
        then obtain d where "r = Some d" "d \<noteq> []" by (cases r) auto
        with assms(1,2,4) Some ne ne' c \<open>prefix ''image/'' (ftype f)\<close> show ?thesis
          by (auto simp: prepare_messages_def prepare_value_def Let_def)
      qed
    next
      case False
      with assms(1,2,4) Some ne ne' show ?thesis
        by (cases "read_excel env (fdata f)")
          (auto simp: prepare_messages_def prepare_value_def Let_def)
    qed
  qed
qed

lemma prepare_messages_value:
  assumes "allocated h msgs" "prepare_messages env h msgs uploaded_file = (h', prep, shown)"
  shows "(deref h' prep, shown) = prepare_value env (deref h msgs) uploaded_file"
    and "length prep = length msgs"
    and "length h' \<ge> length h"
    and "\<forall>a<length h. h' ! a = h ! a"
    and "allocated h' prep"
    and "map role (deref h' prep) = map role (deref h msgs)"
proof -
  from copy_messages_inv [OF assms(1), of "[]"]
  obtain ext new where inv:
    "copy_messages h msgs [] = (h @ ext, new)"
    "length new = length msgs"
    "deref (h @ ext) new = deref h msgs"
    "allocated (h @ ext) new"
    "\<forall>a\<in>set new. role ((h @ ext) ! a) = ''user'' \<longrightarrow> length h \<le> a"
    "distinct (filter (\<lambda>a. length h \<le> a) new)"
    by auto
  from prepare_messages_shape [OF assms(2) inv(1,2,3)]
  have prep: "prep = new"
    and shape: "(h' = h @ ext \<and> prepare_value env (deref h msgs) uploaded_file = (deref h msgs, shown))
      \<or> (\<exists>blk. new \<noteq> [] \<and> h' = attach_block (h @ ext) new blk
            \<and> prepare_value env (deref h msgs) uploaded_file
                = (attach_value (deref h msgs) blk, shown))"
    by simp_all
  show "length prep = length msgs" using prep inv(2) by simp
  from shape show "(deref h' prep, shown) = prepare_value env (deref h msgs) uploaded_file"
  proof
    assume "h' = h @ ext \<and> prepare_value env (deref h msgs) uploaded_file = (deref h msgs, shown)"
    then show ?thesis using prep inv(3) by simp
  next
    assume "\<exists>blk. new \<noteq> [] \<and> h' = attach_block (h @ ext) new blk
            \<and> prepare_value env (deref h msgs) uploaded_file
                = (attach_value (deref h msgs) blk, shown)"
    then obtain blk where b: "new \<noteq> []" "h' = attach_block (h @ ext) new blk"
      "prepare_value env (deref h msgs) uploaded_file = (attach_value (deref h msgs) blk, shown)"
      by blast
    from attach_block_deref [OF b(1) inv(4,5,6), of blk]
    show ?thesis using b prep inv(3) by simp
  qed
  from shape show "length h' \<ge> length h"
    by (auto simp: attach_block_length)
  from shape show "\<forall>a<length h. h' ! a = h ! a"
  proof
    assume "h' = h @ ext \<and> prepare_value env (deref h msgs) uploaded_file = (deref h msgs, shown)"
    then show ?thesis by (simp add: nth_append)
  next
    assume "\<exists>blk. new \<noteq> [] \<and> h' = attach_block (h @ ext) new blk
            \<and> prepare_value env (deref h msgs) uploaded_file
                = (attach_value (deref h msgs) blk, shown)"
    then obtain blk where b: "new \<noteq> []" "h' = attach_block (h @ ext) new blk" by blast
    show ?thesis
    proof (intro allI impI)
      fix a assume "a < length h"
      from attach_block_frame [OF b(1) inv(5) this, of blk]
      show "h' ! a = h ! a" using b(2) \<open>a < length h\<close> by (simp add: nth_append)
    qed
  qed
  from shape show "allocated h' prep"
    using prep inv(4) by (auto simp: allocated_iff attach_block_length)
  from shape have "map role (deref h' prep) = map role (deref (h @ ext) new)"
    using prep by (auto simp: deref_def attach_block_role)
  then show "map role (deref h' prep) = map role (deref h msgs)"
    using inv(3) by simp
qed

lemma prepare_messages_fresh:
  assumes "allocated h msgs" "prepare_messages env h msgs uploaded_file = (h', prep, shown)"
  shows "\<forall>a\<in>set prep. role (h' ! a) = ''user'' \<longrightarrow> length h \<le> a"
proof -
  from copy_messages_inv [OF assms(1), of "[]"]
  obtain ext new where inv:
    "copy_messages h msgs [] = (h @ ext, new)"
    "length new = length msgs"
    "deref (h @ ext) new = deref h msgs"
    "\<forall>a\<in>set new. role ((h @ ext) ! a) = ''user'' \<longrightarrow> length h \<le> a"
    by auto
  from prepare_messages_shape [OF assms(2) inv(1,2,3)]
  have "prep = new" and "h' = h @ ext \<or> (\<exists>blk. h' = attach_block (h @ ext) new blk)"
    by auto
  with inv(4) show ?thesis
    by (auto simp: attach_block_role)
qed

lemma prepare_value_cases:
  "fst (prepare_value env ms uploaded_file) = ms
    \<or> (\<exists>blk. ms \<noteq> [] \<and> fst (prepare_value env ms uploaded_file) = attach_value ms blk)"
proof (cases uploaded_file)
  case None
  then show ?thesis by (simp add: prepare_value_def)
next
  case (Some f)
  obtain r ev where c: "convert_image_to_base64 env f 5 = (r, ev)"
    by (cases "convert_image_to_base64 env f 5")
  show ?thesis
    using Some c by (cases r; cases "read_excel env (fdata f)") (auto simp: prepare_value_def)
qed

lemma butlast_attach_value: "ms \<noteq> [] \<Longrightarrow> butlast (attach_value ms blk) = butlast ms"
  by (simp add: attach_value_def butlast_append)

subsection \<open>Concrete runs\<close>

lemmas demo_simps = demo_libs_def demo_open_def demo_save_def demo_format_def demo_image_def
  loop_body_def save_image_def image_convert_rgb_def image_resize_def resize_dim_def
  fits_budget_def size_estimate_def Let_def

lemma demo_open_webp:
  "pil_open demo_libs (fdata demo_webp) = Some (demo_image ''WEBP'' 2 2)"
  by (simp add: demo_libs_def demo_open_def demo_format_def demo_image_def demo_webp_def)

lemma demo_open_jpeg:
  "pil_open demo_libs (fdata demo_jpeg) = Some (demo_image ''JPEG'' 10000 3000)"
  by (simp add: demo_libs_def demo_open_def demo_format_def demo_image_def demo_jpeg_def)

lemma demo_open_png:
  "pil_open demo_libs (fdata demo_png) = Some (demo_image ''PNG'' 10000 240)"
  by (simp add: demo_libs_def demo_open_def demo_format_def demo_image_def demo_png_def)

lemma demo_loop_webp:
  "compress_loop demo_libs ''WEBP'' (5 * 1024 * 1024) 90 (demo_image ''WEBP'' 2 2)
     = ([], Inr [0xFF, 0, 0, 0])"
  by (simp add: compress_loop.simps demo_simps numeral_3_eq_3)

lemma demo_loop_jpeg:
  "compress_loop demo_libs ''JPEG'' (5 * 1024 * 1024) 90 (demo_image ''JPEG'' 10000 3000)
     = ([QualityStep, QualityStep, QualityStep, QualityStep, QualityStep, QualityStep,
         QualityStep, ShrinkStep, ShrinkStep, ShrinkStep],
        Inr (0xFF # replicate 3188646 0))"
  by (simp add: compress_loop.simps demo_simps)

lemma demo_loop_png:
  "compress_loop demo_libs ''PNG'' (5 * 1024 * 1024) 90 (demo_image ''PNG'' 10000 240)
     = ([ShrinkStep], Inl CannotCompress)"
  by (simp add: compress_loop.simps demo_simps)

lemma demo_b64: "b64encode [0xFF, 0, 0, 0] = ''/wAAAA==''"
  by (simp add: b64_char_def b64_alphabet_def)

lemma b64encode_rfc4648:
  "b64encode [0x66] = ''Zg==''"
  "b64encode [0x66, 0x6F] = ''Zm8=''"
  "b64encode [0x66, 0x6F, 0x6F] = ''Zm9v''"
  "b64encode [0x66, 0x6F, 0x6F, 0x62, 0x61, 0x72] = ''Zm9vYmFy''"
  by (simp_all add: b64_char_def b64_alphabet_def)

lemma demo_convert_webp:
  "convert_image_to_base64 demo_libs demo_webp 5 = (Some ''/wAAAA=='', [])"
  using demo_loop_webp
  by (simp add: convert_image_to_base64_def demo_open_webp demo_image_def b64_char_def
        b64_alphabet_def)

lemma demo_convert_jpeg:
  "convert_image_to_base64 demo_libs demo_jpeg 5
     = (Some (b64encode (0xFF # replicate 3188646 0)), [])"
  using demo_loop_jpeg
  by (simp add: convert_image_to_base64_def demo_open_jpeg demo_image_def)

lemma demo_convert_png:
  "convert_image_to_base64 demo_libs demo_png 5 = (None, [WarnCannotCompress])"
  using demo_loop_png
  by (simp add: convert_image_to_base64_def demo_open_png demo_image_def)

lemma demo_copy:
  "copy_messages demo_heap [0, 1, 2] []
     = (demo_heap @ [\<lparr>role = ''user'', content = Text ''hi''\<rparr>,
                     \<lparr>role = ''user'', content = Text ''describe''\<rparr>], [3, 1, 4])"
  by (simp add: demo_heap_def)

lemma demo_attach:
  "last prepared = 4 \<Longrightarrow>
   attach_block
     (demo_heap @ [\<lparr>role = ''user'', content = Text ''hi''\<rparr>,
                   \<lparr>role = ''user'', content = Text ''describe''\<rparr>]) prepared blk
   = demo_heap @ [\<lparr>role = ''user'', content = Text ''hi''\<rparr>,
                  \<lparr>role = ''user'', content = Blocks [TextBlock (Text ''describe''), blk]\<rparr>]"
  by (simp add: attach_block_def demo_heap_def Let_def eval_nat_numeral)

lemma demo_prepare_webp:
  "prepare_messages demo_libs demo_heap [0, 1, 2] (Some demo_webp)
     = (demo_heap @ [\<lparr>role = ''user'', content = Text ''hi''\<rparr>,
                     \<lparr>role = ''user'',
                      content = Blocks [TextBlock (Text ''describe''), demo_image_block]\<rparr>],
        [3, 1, 4], [])"
proof -
  have t: "ftype demo_webp = ''image/webp''" by (simp add: demo_webp_def)
  show ?thesis
    unfolding prepare_messages_def demo_copy
    by (simp add: demo_convert_webp demo_attach t demo_image_block_def del: append.simps)
qed

lemma demo_allocated: "allocated demo_heap [0, 1, 2]"
  by (simp add: allocated_def demo_heap_def)

lemma demo_prepare_none:
  "prepare_messages demo_libs demo_heap [0, 1, 2] None
     = (demo_heap @ [\<lparr>role = ''user'', content = Text ''hi''\<rparr>,
                     \<lparr>role = ''user'', content = Text ''describe''\<rparr>], [3, 1, 4], [])"
  unfolding prepare_messages_def demo_copy by simp

lemma demo_prepare_png:
  "prepare_messages demo_libs demo_heap [0, 1, 2] (Some demo_png)
     = (demo_heap @ [\<lparr>role = ''user'', content = Text ''hi''\<rparr>,
                     \<lparr>role = ''user'', content = Text ''describe''\<rparr>], [3, 1, 4],
        [WarnCannotCompress])"
proof -
  have t: "ftype demo_png = ''image/png''" by (simp add: demo_png_def)
  show ?thesis
    unfolding prepare_messages_def demo_copy
    by (simp add: demo_convert_png t del: append.simps)
qed

lemma demo_reaches_png:
  "loop_reaches demo_libs ''PNG'' (5 * 1024 * 1024)
     (90, demo_image ''PNG'' 10000 240) (90, demo_image ''PNG'' 9000 216)"
proof -
  have "loop_body demo_libs ''PNG'' (5 * 1024 * 1024) 90 (demo_image ''PNG'' 10000 240)
      = Continue 90 (demo_image ''PNG'' 9000 216) ShrinkStep"
    by (simp add: demo_simps)
  with loop_reaches.here [of demo_libs "''PNG''" "5 * 1024 * 1024" "(90, demo_image ''PNG'' 10000 240)"]
  show ?thesis by (rule loop_reaches.round)
qed

lemma demo_save_webp:
  "save_image demo_libs ''WEBP'' 90 (demo_image ''WEBP'' 2 2)
     = (image_convert_rgb demo_libs (demo_image ''WEBP'' 2 2), Some [0xFF, 0, 0, 0])"
  by (simp add: demo_simps numeral_3_eq_3)

section \<open>The claims\<close>

subsection \<open>C1: the normaliser terminates, within bounds\<close>




subsection \<open>C2: a returned image fits the budget\<close>

text \<open>
  Claim C2. When \<^verbatim>\<open>convert_image_to_base64\<close> returns a string, it is the base64
  text of the bytes \<open>img_bytes\<close> the loop's last iteration wrote, and
  \<open>length img_bytes * 4 / 3 \<le> max_size_mb * 1024 * 1024\<close>; with the default
  \<^verbatim>\<open>max_size_mb=5\<close> the budget is 5242880 bytes, 5 MiB.
\<close>

theorem convert_image_to_base64_within_budget:
  assumes "convert_image_to_base64 env file max_size_mb = (Some image_data, shown)"
  shows "\<exists>img img_bytes. pil_open env (fdata file) = Some img
      \<and> snd (compress_loop env (format img) (max_size_mb * 1024 * 1024) 90 img) = Inr img_bytes
      \<and> image_data = b64encode img_bytes
      \<and> real (length img_bytes) * 4 / 3 \<le> real_of_int (max_size_mb * 1024 * 1024)
      \<and> (max_size_mb = 5 \<longrightarrow> real (length img_bytes) * 4 / 3 \<le> 5242880)"
proof -
  from assms obtain img img_bytes where *: "pil_open env (fdata file) = Some img"
    "snd (compress_loop env (format img) (max_size_mb * 1024 * 1024) 90 img) = Inr img_bytes"
    "image_data = b64encode img_bytes"
    unfolding convert_Some by blast
  from compress_loop_fits [OF *(2)]
  have "real (length img_bytes) * 4 / 3 \<le> real_of_int (max_size_mb * 1024 * 1024)"
    by (simp add: fits_budget_def size_estimate_def)
  with * show ?thesis by auto
qed

theorem convert_image_to_base64_within_budget_witness:
  "convert_image_to_base64 demo_libs demo_jpeg 5
     = (Some (b64encode (0xFF # replicate 3188646 0)), [])
   \<and> (\<exists>img img_bytes. pil_open demo_libs (fdata demo_jpeg) = Some img
        \<and> snd (compress_loop demo_libs (format img) (5 * 1024 * 1024) 90 img) = Inr img_bytes
        \<and> b64encode (0xFF # replicate 3188646 0) = b64encode img_bytes
        \<and> real (length img_bytes) * 4 / 3 \<le> 5242880)"
proof -
  from convert_image_to_base64_within_budget [OF demo_convert_jpeg]
  have "\<exists>img img_bytes. pil_open demo_libs (fdata demo_jpeg) = Some img
        \<and> snd (compress_loop demo_libs (format img) (5 * 1024 * 1024) 90 img) = Inr img_bytes
        \<and> b64encode (0xFF # replicate 3188646 0) = b64encode img_bytes
        \<and> real (length img_bytes) * 4 / 3 \<le> 5242880"
    by auto
  with demo_convert_jpeg show ?thesis by blast
qed

subsection \<open>C3: the image goes into the last user message\<close>

text \<open>
  Claim C3. The history is not empty and its last message has role user; the
  attachment's MIME type starts with \<^verbatim>\<open>image/\<close> and its encoding succeeds, that is
  \<^verbatim>\<open>convert_image_to_base64\<close> returns a string that passes the test
  \<^verbatim>\<open>if image_data:\<close> (a string that is not empty). Then the last message of the
  returned list has role user and its content is the two blocks, in this order: the
  text block holding the original content, and the image block with source type
  \<^verbatim>\<open>base64\<close>, the attachment's MIME type and the encoded data.
\<close>
theorem prepare_messages_attaches_image:
  assumes "allocated h messages" and "messages \<noteq> []"
    and "role (h ! last messages) = ''user''"
    and "prefix ''image/'' (ftype file)"
    and "convert_image_to_base64 env file 5 = (Some image_data, shown)"
    and "image_data \<noteq> []"
    and "prepare_messages env h messages (Some file) = (h', prepared, shown')"
  shows "content (last (deref h' prepared)) =
           Blocks [TextBlock (content (h ! last messages)),
                   ImageBlock \<lparr>source_type = ''base64'', media_type = ftype file,
                                data = image_data\<rparr>]
       \<and> role (last (deref h' prepared)) = ''user'' \<and> shown' = shown"
proof -
  let ?ms = "deref h messages"
  let ?blk = "ImageBlock \<lparr>source_type = ''base64'', media_type = ftype file, data = image_data\<rparr>"
  have ne: "?ms \<noteq> []" using assms(2) by (simp add: deref_def)
  have l: "last ?ms = h ! last messages" using assms(2) by (simp add: deref_def last_map)
  have "prepare_value env ?ms (Some file) = (attach_value ?ms ?blk, shown)"
    using ne assms(4,5,6) by (simp add: prepare_value_def)
  with prepare_messages_value(1) [OF assms(1,7)]
  have "deref h' prepared = attach_value ?ms ?blk" and "shown' = shown" by simp_all
  then show ?thesis using l assms(3) by (simp add: attach_value_def)
qed

theorem prepare_messages_attaches_image_witness:
  "allocated demo_heap [0, 1, 2]
   \<and> role (demo_heap ! last [0, 1, 2]) = ''user''
   \<and> prefix ''image/'' (ftype demo_webp)
   \<and> convert_image_to_base64 demo_libs demo_webp 5 = (Some ''/wAAAA=='', [])
   \<and> (\<exists>h'. prepare_messages demo_libs demo_heap [0, 1, 2] (Some demo_webp) = (h', [3, 1, 4], [])
        \<and> content (last (deref h' [3, 1, 4]))
            = Blocks [TextBlock (Text ''describe''),
                      ImageBlock \<lparr>source_type = ''base64'', media_type = ''image/webp'',
                                   data = ''/wAAAA==''\<rparr>])"
proof -
  have 2: "[0, 1, 2] \<noteq> ([] :: addr list)" by simp
  have 3: "role (demo_heap ! last [0, 1, 2]) = ''user''" by (simp add: demo_heap_def)
  have 4: "prefix ''image/'' (ftype demo_webp)" by (simp add: demo_webp_def)
  have 6: "''/wAAAA=='' \<noteq> []" by simp
  from prepare_messages_attaches_image
    [OF demo_allocated 2 3 4 demo_convert_webp 6 demo_prepare_webp]
  have "content (last (deref
           (demo_heap @ [\<lparr>role = ''user'', content = Text ''hi''\<rparr>,
                         \<lparr>role = ''user'',
                          content = Blocks [TextBlock (Text ''describe''), demo_image_block]\<rparr>])
           [3, 1, 4]))
        = Blocks [TextBlock (Text ''describe''),
                  ImageBlock \<lparr>source_type = ''base64'', media_type = ''image/webp'',
                               data = ''/wAAAA==''\<rparr>]"
    by (simp add: demo_heap_def demo_webp_def)
  with demo_allocated 3 4 demo_convert_webp demo_prepare_webp show ?thesis by blast
qed

subsection \<open>C4: the number of messages and their roles are kept\<close>

text \<open>
  Claim C4. For every history and every optional attachment the returned list has as
  many messages as the history, with the same role at every position, and every
  message but the last is identical to the history's: only the last one's content
  may differ.
\<close>
theorem prepare_messages_preserves_roles:
  assumes "allocated h messages"
    and "prepare_messages env h messages uploaded_file = (h', prepared, shown)"
  shows "length prepared = length messages
       \<and> map role (deref h' prepared) = map role (deref h messages)
       \<and> butlast (deref h' prepared) = butlast (deref h messages)"
proof -
  from prepare_messages_value(1) [OF assms]
  have "deref h' prepared = fst (prepare_value env (deref h messages) uploaded_file)"
    by (metis fst_conv)
  with prepare_value_cases [of env "deref h messages" uploaded_file]
  have "butlast (deref h' prepared) = butlast (deref h messages)"
    by (auto simp: butlast_attach_value)
  with prepare_messages_value(2,6) [OF assms] show ?thesis by simp
qed

theorem prepare_messages_preserves_roles_witness:
  "allocated demo_heap [0, 1, 2]
   \<and> (\<exists>h'. prepare_messages demo_libs demo_heap [0, 1, 2] (Some demo_webp) = (h', [3, 1, 4], [])
        \<and> length [3, 1, 4 :: addr] = length [0, 1, 2 :: addr]
        \<and> map role (deref h' [3, 1, 4]) = [''user'', ''assistant'', ''user'']
        \<and> butlast (deref h' [3, 1, 4]) = butlast (deref demo_heap [0, 1, 2]))"
proof -
  from prepare_messages_preserves_roles [OF demo_allocated demo_prepare_webp]
  have "map role (deref
           (demo_heap @ [\<lparr>role = ''user'', content = Text ''hi''\<rparr>,
                         \<lparr>role = ''user'',
                          content = Blocks [TextBlock (Text ''describe''), demo_image_block]\<rparr>])
           [3, 1, 4]) = [''user'', ''assistant'', ''user'']
      \<and> butlast (deref
           (demo_heap @ [\<lparr>role = ''user'', content = Text ''hi''\<rparr>,
                         \<lparr>role = ''user'',
                          content = Blocks [TextBlock (Text ''describe''), demo_image_block]\<rparr>])
           [3, 1, 4]) = butlast (deref demo_heap [0, 1, 2])"
    by (simp add: deref_def demo_heap_def)
  with demo_allocated demo_prepare_webp show ?thesis by simp
qed

subsection \<open>C7: the history is not written to\<close>

text \<open>
  Claim C7. After a call every dictionary that existed before it, so every entry of
  the history, holds what it held (role and content). The user messages of the
  returned list are dictionaries the call created (the other messages are the
  history's own dictionaries, shared, and not written to). A second call with the
  same history and attachment returns a list with the same contents and shows the
  same events, and leaves the history as it was.
\<close>
theorem prepare_messages_keeps_history:
  assumes "allocated h messages"
    and "prepare_messages env h messages uploaded_file = (h', prepared, shown)"
  shows "(\<forall>a<length h. h' ! a = h ! a)
       \<and> deref h' messages = deref h messages
       \<and> (\<forall>a\<in>set prepared. role (h' ! a) = ''user'' \<longrightarrow> length h \<le> a)
       \<and> (\<forall>h'' prepared' shown'.
            prepare_messages env h' messages uploaded_file = (h'', prepared', shown') \<longrightarrow>
              deref h'' prepared' = deref h' prepared \<and> shown' = shown
              \<and> deref h'' messages = deref h messages)"
proof (intro conjI allI impI)
  show frame: "\<And>a. a < length h \<Longrightarrow> h' ! a = h ! a"
    using prepare_messages_value(4) [OF assms] by simp
  show same: "deref h' messages = deref h messages"
    using assms(1) frame by (auto simp: deref_def allocated_iff)
  show "\<forall>a\<in>set prepared. role (h' ! a) = ''user'' \<longrightarrow> length h \<le> a"
    using assms by (rule prepare_messages_fresh)
  fix h'' prepared' shown'
  assume second: "prepare_messages env h' messages uploaded_file = (h'', prepared', shown')"
  have al': "allocated h' messages"
    using assms(1) prepare_messages_value(3) [OF assms] by (auto simp: allocated_iff)
  have "(deref h'' prepared', shown') = prepare_value env (deref h messages) uploaded_file"
    using prepare_messages_value(1) [OF al' second] same by simp
  also have "\<dots> = (deref h' prepared, shown)"
    using prepare_messages_value(1) [OF assms] by simp
  finally show "deref h'' prepared' = deref h' prepared" and "shown' = shown"
    by simp_all
  have "\<And>a. a < length h' \<Longrightarrow> h'' ! a = h' ! a"
    using prepare_messages_value(4) [OF al' second] by simp
  then have "deref h'' messages = deref h' messages"
    using al' by (auto simp: deref_def allocated_iff)
  with same show "deref h'' messages = deref h messages" by simp
qed

theorem prepare_messages_keeps_history_witness:
  "allocated demo_heap [0, 1, 2]
   \<and> (\<exists>h'. prepare_messages demo_libs demo_heap [0, 1, 2] (Some demo_webp) = (h', [3, 1, 4], [])
        \<and> h' ! 0 = demo_heap ! 0 \<and> h' ! 1 = demo_heap ! 1 \<and> h' ! 2 = demo_heap ! 2
        \<and> deref h' [0, 1, 2] = deref demo_heap [0, 1, 2]
        \<and> deref (fst (prepare_messages demo_libs h' [0, 1, 2] (Some demo_webp)))
             (fst (snd (prepare_messages demo_libs h' [0, 1, 2] (Some demo_webp))))
            = deref h' [3, 1, 4]
        \<and> deref (fst (prepare_messages demo_libs h' [0, 1, 2] (Some demo_webp))) [0, 1, 2]
            = deref demo_heap [0, 1, 2])"
proof -
  let ?h = "demo_heap @ [\<lparr>role = ''user'', content = Text ''hi''\<rparr>,
                         \<lparr>role = ''user'',
                          content = Blocks [TextBlock (Text ''describe''), demo_image_block]\<rparr>]"
  let ?second = "prepare_messages demo_libs ?h [0, 1, 2] (Some demo_webp)"
  note k = prepare_messages_keeps_history [OF demo_allocated demo_prepare_webp]
  have len: "length demo_heap = 3" by (simp add: demo_heap_def)
  from k len have f: "?h ! 0 = demo_heap ! 0" "?h ! 1 = demo_heap ! 1" "?h ! 2 = demo_heap ! 2"
    by simp_all
  from k have d: "deref ?h [0, 1, 2] = deref demo_heap [0, 1, 2]" by blast
  have s: "?second = (fst ?second, fst (snd ?second), snd (snd ?second))" by simp
  from k s have "deref (fst ?second) (fst (snd ?second)) = deref ?h [3, 1, 4]
      \<and> deref (fst ?second) [0, 1, 2] = deref demo_heap [0, 1, 2]"
    by blast
  with demo_allocated demo_prepare_webp f d show ?thesis by blast
qed

subsection \<open>C8: without an attachment the output is the input\<close>

text \<open>
  Claim C8. With \<^verbatim>\<open>uploaded_file=None\<close> the returned list holds, position by
  position, messages equal to the history's (same role, same content), and nothing
  is shown to the user.
\<close>
theorem prepare_messages_no_attachment:
  assumes "allocated h messages"
  shows "\<exists>h' prepared. prepare_messages env h messages None = (h', prepared, [])
       \<and> deref h' prepared = deref h messages"
proof -
  from copy_messages_inv [OF assms, of "[]"]
  obtain ext new where "copy_messages h messages [] = (h @ ext, new)"
    "deref (h @ ext) new = deref h messages"
    by auto
  then show ?thesis by (simp add: prepare_messages_def)
qed

theorem prepare_messages_no_attachment_witness:
  "allocated demo_heap [0, 1, 2]
   \<and> (\<exists>h'. prepare_messages demo_libs demo_heap [0, 1, 2] None = (h', [3, 1, 4], [])
        \<and> deref h' [3, 1, 4] = deref demo_heap [0, 1, 2])"
proof -
  from prepare_messages_no_attachment [OF demo_allocated, of demo_libs] demo_prepare_none
  have "deref (demo_heap @ [\<lparr>role = ''user'', content = Text ''hi''\<rparr>,
                            \<lparr>role = ''user'', content = Text ''describe''\<rparr>]) [3, 1, 4]
        = deref demo_heap [0, 1, 2]"
    by simp
  with demo_allocated demo_prepare_none show ?thesis by blast
qed

subsection \<open>C10: an empty history drops the attachment\<close>

text \<open>
  Claim C10. With an empty history the function returns the empty list whatever the
  attachment is: the heap is unchanged, nothing is encoded and nothing is shown
  (line 115 requires a prepared message).
\<close>
theorem prepare_messages_empty_history:
  "prepare_messages env h [] uploaded_file = (h, [], [])"
  by (simp add: prepare_messages_def split: option.splits)

subsection \<open>C9: the reply is the first block's text\<close>

text \<open>
  Claim C9. When the endpoint answers and the first content block is a text block,
  \<^verbatim>\<open>stream_response\<close> returns its text; when the answer has no content block it
  returns \<^verbatim>\<open>None\<close> and reports no error.
\<close>
theorem stream_response_first_block:
  "(client \<lparr>model = CLAUDE_MODEL, max_tokens = 4096, req_messages = messages\<rparr>
        = Some (RespText t # rest) \<longrightarrow>
      stream_response client messages = (Some t, []))
   \<and> (client \<lparr>model = CLAUDE_MODEL, max_tokens = 4096, req_messages = messages\<rparr> = Some [] \<longrightarrow>
      stream_response client messages = (None, []))"
  by (simp add: stream_response_def)

theorem stream_response_first_block_witness:
  "demo_client \<lparr>model = CLAUDE_MODEL, max_tokens = 4096, req_messages = deref demo_heap [0, 1, 2]\<rparr>
       = Some (RespText ''Hello!'' # [RespText ''more''])
   \<and> stream_response demo_client (deref demo_heap [0, 1, 2]) = (Some ''Hello!'', [])
   \<and> demo_client \<lparr>model = CLAUDE_MODEL, max_tokens = 4096, req_messages = []\<rparr> = Some []
   \<and> stream_response demo_client [] = (None, [])"
proof -
  have 1: "demo_client \<lparr>model = CLAUDE_MODEL, max_tokens = 4096,
              req_messages = deref demo_heap [0, 1, 2]\<rparr>
       = Some (RespText ''Hello!'' # [RespText ''more''])"
    by (simp add: demo_client_def deref_def)
  have 2: "demo_client \<lparr>model = CLAUDE_MODEL, max_tokens = 4096, req_messages = []\<rparr> = Some []"
    by (simp add: demo_client_def)
  from stream_response_first_block [of demo_client "deref demo_heap [0, 1, 2]" "''Hello!''"
      "[RespText ''more'']"] 1
  have 3: "stream_response demo_client (deref demo_heap [0, 1, 2]) = (Some ''Hello!'', [])"
    by blast
  from stream_response_first_block [of demo_client "[]"] 2
  have 4: "stream_response demo_client [] = (None, [])"
    by blast
  from 1 2 3 4 show ?thesis by blast
qed

subsection \<open>C6: when the normaliser gives up\<close>

text \<open>
  Claim C6. An iteration of the loop ends with \<open>CannotCompress\<close> exactly when the
  image was saved, the estimate of the bytes is over the budget, the quality is not
  reduced (the source is not JPEG, or the quality is 20 or less) and nine tenths of
  the width or of the height is below 200. \<^verbatim>\<open>convert_image_to_base64\<close> returns
  \<^verbatim>\<open>None\<close> with the warning exactly when the loop, started at quality 90 on the
  opened image, reaches such an iteration. In that case \<^verbatim>\<open>prepare_messages\<close>
  returns normally, with the warning shown and every message as it was in the
  history.
\<close>
theorem cannot_compress_exactly:
  "(loop_body env img_format max_size_bytes quality img = Fail CannotCompress \<longleftrightarrow>
      (\<exists>img_bytes. snd (save_image env img_format quality img) = Some img_bytes
         \<and> \<not> fits_budget (length img_bytes) max_size_bytes
         \<and> \<not> (img_format \<in> set [''JPEG'', ''JPG''] \<and> 20 < quality)
         \<and> (resize_dim (width img) < 200 \<or> resize_dim (height img) < 200)))
   \<and> (convert_image_to_base64 env file max_size_mb = (None, [WarnCannotCompress]) \<longleftrightarrow>
      (\<exists>img0 quality' img'. pil_open env (fdata file) = Some img0
         \<and> loop_reaches env (format img0) (max_size_mb * 1024 * 1024) (90, img0) (quality', img')
         \<and> loop_body env (format img0) (max_size_mb * 1024 * 1024) quality' img'
              = Fail CannotCompress))
   \<and> (allocated h messages \<and> messages \<noteq> [] \<and> prefix ''image/'' (ftype file)
        \<and> convert_image_to_base64 env file 5 = (None, [WarnCannotCompress]) \<longrightarrow>
      (\<exists>h' prepared. prepare_messages env h messages (Some file)
            = (h', prepared, [WarnCannotCompress])
         \<and> deref h' prepared = deref h messages))"
proof (intro conjI impI)
  show "loop_body env img_format max_size_bytes quality img = Fail CannotCompress \<longleftrightarrow>
      (\<exists>img_bytes. snd (save_image env img_format quality img) = Some img_bytes
         \<and> \<not> fits_budget (length img_bytes) max_size_bytes
         \<and> \<not> (img_format \<in> set [''JPEG'', ''JPG''] \<and> 20 < quality)
         \<and> (resize_dim (width img) < 200 \<or> resize_dim (height img) < 200))"
    by (rule loop_body_CannotCompress)
  show "convert_image_to_base64 env file max_size_mb = (None, [WarnCannotCompress]) \<longleftrightarrow>
      (\<exists>img0 quality' img'. pil_open env (fdata file) = Some img0
         \<and> loop_reaches env (format img0) (max_size_mb * 1024 * 1024) (90, img0) (quality', img')
         \<and> loop_body env (format img0) (max_size_mb * 1024 * 1024) quality' img'
              = Fail CannotCompress)"
    unfolding convert_CannotCompress compress_loop_CannotCompress by blast
  assume a: "allocated h messages \<and> messages \<noteq> [] \<and> prefix ''image/'' (ftype file)
        \<and> convert_image_to_base64 env file 5 = (None, [WarnCannotCompress])"
  obtain h' prepared shown where p: "prepare_messages env h messages (Some file) = (h', prepared, shown)"
    by (cases "prepare_messages env h messages (Some file)")
  have ne: "deref h messages \<noteq> []" using a by (simp add: deref_def)
  have "prepare_value env (deref h messages) (Some file) = (deref h messages, [WarnCannotCompress])"
    using a ne by (simp add: prepare_value_def)
  with prepare_messages_value(1) [OF _ p] a
  have "deref h' prepared = deref h messages" "shown = [WarnCannotCompress]" by simp_all
  with p show "\<exists>h' prepared. prepare_messages env h messages (Some file)
            = (h', prepared, [WarnCannotCompress])
         \<and> deref h' prepared = deref h messages" by blast
qed

theorem cannot_compress_exactly_witness:
  "snd (save_image demo_libs ''PNG'' 90 (demo_image ''PNG'' 9000 216))
       = Some (0x89 # replicate 5832000 0)
   \<and> \<not> fits_budget (length (0x89 # replicate 5832000 (0 :: byte))) (5 * 1024 * 1024)
   \<and> resize_dim (height (demo_image ''PNG'' 9000 216)) < 200
   \<and> loop_body demo_libs ''PNG'' (5 * 1024 * 1024) 90 (demo_image ''PNG'' 9000 216)
       = Fail CannotCompress
   \<and> pil_open demo_libs (fdata demo_png) = Some (demo_image ''PNG'' 10000 240)
   \<and> loop_reaches demo_libs ''PNG'' (5 * 1024 * 1024)
       (90, demo_image ''PNG'' 10000 240) (90, demo_image ''PNG'' 9000 216)
   \<and> convert_image_to_base64 demo_libs demo_png 5 = (None, [WarnCannotCompress])
   \<and> allocated demo_heap [0, 1, 2] \<and> prefix ''image/'' (ftype demo_png)
   \<and> (\<exists>h' prepared. prepare_messages demo_libs demo_heap [0, 1, 2] (Some demo_png)
          = (h', prepared, [WarnCannotCompress])
        \<and> deref h' prepared = deref demo_heap [0, 1, 2])"
proof -
  note c = cannot_compress_exactly [of demo_libs "''PNG''" "5 * 1024 * 1024" 90
      "demo_image ''PNG'' 9000 216" demo_png 5 demo_heap "[0, 1, 2]"]
  have 1: "snd (save_image demo_libs ''PNG'' 90 (demo_image ''PNG'' 9000 216))
       = Some (0x89 # replicate 5832000 0)"
    by (simp add: demo_simps)
  have 2: "\<not> fits_budget (length (0x89 # replicate 5832000 (0 :: byte))) (5 * 1024 * 1024)"
    by (simp add: fits_budget_def size_estimate_def)
  have 3: "resize_dim (height (demo_image ''PNG'' 9000 216)) < 200"
    by (simp add: resize_dim_def demo_image_def)
  from c 1 2 3 have 4: "loop_body demo_libs ''PNG'' (5 * 1024 * 1024) 90 (demo_image ''PNG'' 9000 216)
       = Fail CannotCompress"
    by simp
  have f: "format (demo_image ''PNG'' 10000 240) = ''PNG''" by (simp add: demo_image_def)
  from c demo_open_png demo_reaches_png 4 f
  have 5: "convert_image_to_base64 demo_libs demo_png 5 = (None, [WarnCannotCompress])"
    by auto
  have 6: "prefix ''image/'' (ftype demo_png)" by (simp add: demo_png_def)
  have 7: "[0, 1, 2] \<noteq> ([] :: addr list)" by simp
  from c demo_allocated 5 6 7
  have 8: "\<exists>h' prepared. prepare_messages demo_libs demo_heap [0, 1, 2] (Some demo_png)
          = (h', prepared, [WarnCannotCompress])
        \<and> deref h' prepared = deref demo_heap [0, 1, 2]"
    by blast
  from 1 2 3 4 demo_open_png demo_reaches_png 5 demo_allocated 6 8 show ?thesis by blast
qed

subsection \<open>C5: an image that fits at the first iteration\<close>

text \<open>
  Claim C5, as amended. When the first encoding fits the budget the function returns
  its base64 text, with no quality step and no resize. A JPEG source is saved as JPEG
  at quality 90 and a PNG source as PNG, both from the image as opened; a source of
  any other format is converted to RGB and saved as JPEG at quality 90.
\<close>
theorem first_iteration_fast_path:
  assumes "pil_open env (fdata file) = Some img"
    and "save_image env (format img) 90 img = (img', Some img_bytes)"
    and "fits_budget (length img_bytes) (max_size_mb * 1024 * 1024)"
  shows "convert_image_to_base64 env file max_size_mb = (Some (b64encode img_bytes), [])
     \<and> fst (compress_loop env (format img) (max_size_mb * 1024 * 1024) 90 img) = []
     \<and> (format img \<in> set [''JPEG'', ''JPG''] \<longrightarrow>
          img' = img \<and> pil_save env img SaveJPEG (Some 90) = Some img_bytes)
     \<and> (format img = ''PNG'' \<longrightarrow>
          img' = img \<and> pil_save env img SavePNG None = Some img_bytes)
     \<and> (format img \<notin> set [''JPEG'', ''JPG'', ''PNG''] \<longrightarrow>
          img' = image_convert_rgb env img
          \<and> pil_save env (image_convert_rgb env img) SaveJPEG (Some 90) = Some img_bytes)"
proof -
  have b: "loop_body env (format img) (max_size_mb * 1024 * 1024) 90 img = Break img_bytes"
    using assms(2,3) by (simp add: loop_body_def)
  then have l: "compress_loop env (format img) (max_size_mb * 1024 * 1024) 90 img = ([], Inr img_bytes)"
    by (rule compress_loop_Break)
  have 1: "convert_image_to_base64 env file max_size_mb = (Some (b64encode img_bytes), [])"
    unfolding convert_Some using assms(1) l by simp
  have 2: "fst (compress_loop env (format img) (max_size_mb * 1024 * 1024) 90 img) = []"
    using l by simp
  from assms(2) have 3: "format img \<in> set [''JPEG'', ''JPG''] \<longrightarrow>
          img' = img \<and> pil_save env img SaveJPEG (Some 90) = Some img_bytes"
    by (auto simp: save_image_def)
  from assms(2) have 4: "format img = ''PNG'' \<longrightarrow>
          img' = img \<and> pil_save env img SavePNG None = Some img_bytes"
    by (auto simp: save_image_def)
  from assms(2) have 5: "format img \<notin> set [''JPEG'', ''JPG'', ''PNG''] \<longrightarrow>
          img' = image_convert_rgb env img
          \<and> pil_save env (image_convert_rgb env img) SaveJPEG (Some 90) = Some img_bytes"
    by (auto simp: save_image_def Let_def)
  from 1 2 3 4 5 show ?thesis by blast
qed

theorem first_iteration_fast_path_witness:
  "pil_open demo_libs (fdata demo_webp) = Some (demo_image ''WEBP'' 2 2)
   \<and> save_image demo_libs (format (demo_image ''WEBP'' 2 2)) 90 (demo_image ''WEBP'' 2 2)
       = (image_convert_rgb demo_libs (demo_image ''WEBP'' 2 2), Some [0xFF, 0, 0, 0])
   \<and> fits_budget (length [0xFF, 0, 0, 0 :: byte]) (5 * 1024 * 1024)
   \<and> convert_image_to_base64 demo_libs demo_webp 5 = (Some (b64encode [0xFF, 0, 0, 0]), [])
   \<and> fst (compress_loop demo_libs ''WEBP'' (5 * 1024 * 1024) 90 (demo_image ''WEBP'' 2 2)) = []
   \<and> pil_save demo_libs (image_convert_rgb demo_libs (demo_image ''WEBP'' 2 2)) SaveJPEG (Some 90)
       = Some [0xFF, 0, 0, 0]"
proof -
  have f: "format (demo_image ''WEBP'' 2 2) = ''WEBP''" by (simp add: demo_image_def)
  have 2: "save_image demo_libs (format (demo_image ''WEBP'' 2 2)) 90 (demo_image ''WEBP'' 2 2)
       = (image_convert_rgb demo_libs (demo_image ''WEBP'' 2 2), Some [0xFF, 0, 0, 0])"
    using demo_save_webp f by simp
  have 3: "fits_budget (length [0xFF, 0, 0, 0 :: byte]) (5 * 1024 * 1024)"
    by (simp add: fits_budget_def size_estimate_def)
  from first_iteration_fast_path [OF demo_open_webp 2 3] f
  have "convert_image_to_base64 demo_libs demo_webp 5 = (Some (b64encode [0xFF, 0, 0, 0]), [])
   \<and> fst (compress_loop demo_libs ''WEBP'' (5 * 1024 * 1024) 90 (demo_image ''WEBP'' 2 2)) = []
   \<and> pil_save demo_libs (image_convert_rgb demo_libs (demo_image ''WEBP'' 2 2)) SaveJPEG (Some 90)
       = Some [0xFF, 0, 0, 0]"
    by simp
  with demo_open_webp 2 3 show ?thesis by blast
qed

text \<open>
  Claim C5 as stated fails on a source that is neither JPEG nor PNG. The WEBP image
  below fits at the first iteration; what is returned is the base64 text of the
  image converted to RGB and saved as JPEG at quality 90 (the bytes start with
  \<open>0xFF\<close>), which is neither the uploaded bytes nor a lossless encoding nor the
  source's format.
\<close>

theorem fast_path_saves_webp_as_jpeg:
  "pil_open demo_libs (fdata demo_webp) = Some (demo_image ''WEBP'' 2 2)
   \<and> format (demo_image ''WEBP'' 2 2) = ''WEBP''
   \<and> compress_loop demo_libs ''WEBP'' (5 * 1024 * 1024) 90 (demo_image ''WEBP'' 2 2)
       = ([], Inr [0xFF, 0, 0, 0])
   \<and> pil_save demo_libs (image_convert_rgb demo_libs (demo_image ''WEBP'' 2 2)) SaveJPEG (Some 90)
       = Some [0xFF, 0, 0, 0]
   \<and> pil_save demo_libs (demo_image ''WEBP'' 2 2) SavePNG None
       = Some [0x89, 0, 0, 0, 0, 0, 0, 0, 0, 0, 0, 0, 0]
   \<and> mode (image_convert_rgb demo_libs (demo_image ''WEBP'' 2 2)) = ''RGB''
   \<and> mode (demo_image ''WEBP'' 2 2) = ''RGBA''
   \<and> convert_image_to_base64 demo_libs demo_webp 5 = (Some (b64encode [0xFF, 0, 0, 0]), [])
   \<and> b64encode [0xFF, 0, 0, 0] = ''/wAAAA==''
   \<and> b64encode (fdata demo_webp) = ''AgACAAI=''
   \<and> b64encode [0x89, 0, 0, 0, 0, 0, 0, 0, 0, 0, 0, 0, 0] = ''iQAAAAAAAAAAAAAAAA==''"
proof -
  have "pil_save demo_libs (demo_image ''WEBP'' 2 2) SavePNG None
       = Some [0x89, 0, 0, 0, 0, 0, 0, 0, 0, 0, 0, 0, 0]"
    by (simp add: demo_simps eval_nat_numeral)
  moreover have "pil_save demo_libs (image_convert_rgb demo_libs (demo_image ''WEBP'' 2 2)) SaveJPEG (Some 90)
       = Some [0xFF, 0, 0, 0]"
    by (simp add: demo_simps numeral_3_eq_3)
  moreover have "mode (image_convert_rgb demo_libs (demo_image ''WEBP'' 2 2)) = ''RGB''"
    "mode (demo_image ''WEBP'' 2 2) = ''RGBA''" "format (demo_image ''WEBP'' 2 2) = ''WEBP''"
    by (simp_all add: demo_simps)
  moreover have "b64encode [0xFF, 0, 0, 0] = ''/wAAAA==''"
    "b64encode (fdata demo_webp) = ''AgACAAI=''"
    "b64encode [0x89, 0, 0, 0, 0, 0, 0, 0, 0, 0, 0, 0, 0] = ''iQAAAAAAAAAAAAAAAA==''"
    by (simp_all add: b64_char_def b64_alphabet_def demo_webp_def)
  moreover have "convert_image_to_base64 demo_libs demo_webp 5 = (Some (b64encode [0xFF, 0, 0, 0]), [])"
    using demo_convert_webp by (simp add: b64_char_def b64_alphabet_def)
  ultimately show ?thesis using demo_open_webp demo_loop_webp by blast
qed

end
